theory Spec2Isabelle
  imports Main
begin

section \<open>The free store\<close>

text \<open>
  Objects created by \<^verbatim>\<open>new\<close> live in a free store. An address is an index into the
  store; a cell holds \<open>Some v\<close> while the object is alive and \<open>None\<close> once it has been
  deleted. \<^verbatim>\<open>new\<close> always yields an address that no earlier object had. Exhaustion
  of memory (\<^verbatim>\<open>std::bad_alloc\<close>) is outside the model: the store is unbounded.
\<close>

type_synonym 'a store = "'a option list"

definition new_obj :: "'a \<Rightarrow> 'a store \<Rightarrow> nat \<times> 'a store" where
  "new_obj v h = (length h, h @ [Some v])"

definition delete_obj :: "nat \<Rightarrow> 'a store \<Rightarrow> 'a store" where
  "delete_obj a h = (if a < length h then h[a := None] else h)"

section \<open>Item 18: the investment factory (item18.cxx)\<close>

text \<open>
  The hierarchy \<^verbatim>\<open>Investment\<close> / \<^verbatim>\<open>Stock\<close>, \<^verbatim>\<open>Bond\<close>, \<^verbatim>\<open>RealEstate\<close>: an object of
  the hierarchy is represented by its dynamic type.
\<close>

datatype Investment = Stock | Bond | RealEstate

text \<open>
  A \<^verbatim>\<open>std::unique_ptr<Investment, decltype(delInvmt)>\<close> is the raw pointer it owns, or
  null (\<open>None\<close>). The custom deleter \<^verbatim>\<open>delInvmt\<close> deletes the object it is given.
  \<^verbatim>\<open>reset(p)\<close> stores \<open>p\<close> and then runs the deleter on the pointer held before,
  when that one was not null.
\<close>

type_synonym unique_ptr = "nat option"

definition delInvmt :: "nat \<Rightarrow> Investment store \<Rightarrow> Investment store" where
  "delInvmt pInvestment h = delete_obj pInvestment h"

definition reset :: "unique_ptr \<Rightarrow> nat \<Rightarrow> Investment store \<Rightarrow> unique_ptr \<times> Investment store" where
  "reset up p h = (case up of None \<Rightarrow> (Some p, h) | Some old \<Rightarrow> (Some p, delInvmt old h))"

text \<open>
  \<^verbatim>\<open>makeInvestment(Ts&&... params)\<close>: the three conditions of the chain are the literal
  \<^verbatim>\<open>true\<close> in the source and are kept as they stand. The classes have no
  constructor that reads \<open>params\<close>, so the pack does not reach the created object.
\<close>

definition makeInvestment :: "'ts \<Rightarrow> Investment store \<Rightarrow> unique_ptr \<times> Investment store" where
  "makeInvestment params h =
     (let pInv = None in
      if True then
        (let (p, h1) = new_obj Stock h in reset pInv p h1)
      else if True then
        (let (p, h1) = new_obj Bond h in reset pInv p h1)
      else if True then
        (let (p, h1) = new_obj RealEstate h in reset pInv p h1)
      else (pInv, h))"

section \<open>std::thread, as the examples use it\<close>

text \<open>
  A \<^verbatim>\<open>std::thread\<close> object either represents a thread of execution, named by its
  id, or none (default constructed, moved from, joined or detached). What the examples
  do to threads is recorded as a list of events, oldest first.
  \<^item> \<^verbatim>\<open>joinable()\<close> holds when the object represents a thread.
  \<^item> \<^verbatim>\<open>join()\<close> and \<^verbatim>\<open>detach()\<close> throw \<^verbatim>\<open>std::system_error\<close> with
    \<^verbatim>\<open>invalid_argument\<close> on an object that is not joinable. \<^verbatim>\<open>join()\<close> throws
    \<^verbatim>\<open>resource_deadlock_would_occur\<close> when the calling thread is the thread that the
    object represents. Both throw the error that the implementation reports, if it
    reports one (a deadlock that it detects, \<^verbatim>\<open>no_such_process\<close> for a thread that is
    not valid). Otherwise they leave the object not joinable.
  \<^item> The destructor of a joinable object calls \<^verbatim>\<open>std::terminate\<close>.
  \<^item> Moving leaves the source not joinable; move assignment to a joinable object calls
    \<^verbatim>\<open>std::terminate\<close>.
  The implementation is a parameter \<open>sys\<close>: for an operation, the id of the calling
  thread and the id of the thread operated on, the error that it reports or \<open>None\<close>.
\<close>

datatype event = Joined nat | Detached nat | Terminate_called

datatype errc = invalid_argument | resource_deadlock_would_occur | no_such_process

datatype failure = System_error errc | Signed_overflow

datatype thread_op = Op_join | Op_detach

type_synonym implementation = "thread_op \<Rightarrow> nat \<Rightarrow> nat \<Rightarrow> errc option"

text \<open>An implementation that reports no error of its own.\<close>

definition no_error_reported :: implementation where
  "no_error_reported op caller target = None"

datatype std_thread = Thread (get_id: "nat option")

definition joinable :: "std_thread \<Rightarrow> bool" where
  "joinable th = (get_id th \<noteq> None)"

definition thread_join ::
  "implementation \<Rightarrow> nat \<Rightarrow> std_thread \<Rightarrow> event list \<Rightarrow> failure + (std_thread \<times> event list)" where
  "thread_join sys caller th es =
     (case get_id th of
        None \<Rightarrow> Inl (System_error invalid_argument)
      | Some i \<Rightarrow>
          if i = caller then Inl (System_error resource_deadlock_would_occur)
          else
            (case sys Op_join caller i of
               Some e \<Rightarrow> Inl (System_error e)
             | None \<Rightarrow> Inr (Thread None, es @ [Joined i])))"

definition thread_detach ::
  "implementation \<Rightarrow> nat \<Rightarrow> std_thread \<Rightarrow> event list \<Rightarrow> failure + (std_thread \<times> event list)" where
  "thread_detach sys caller th es =
     (case get_id th of
        None \<Rightarrow> Inl (System_error invalid_argument)
      | Some i \<Rightarrow>
          (case sys Op_detach caller i of
             Some e \<Rightarrow> Inl (System_error e)
           | None \<Rightarrow> Inr (Thread None, es @ [Detached i])))"

definition thread_dtor :: "std_thread \<Rightarrow> event list \<Rightarrow> event list" where
  "thread_dtor th es = (if joinable th then es @ [Terminate_called] else es)"

text \<open>The move constructor: the new object and the moved-from source.\<close>

definition thread_move :: "std_thread \<Rightarrow> std_thread \<times> std_thread" where
  "thread_move src = (src, Thread None)"

text \<open>Move assignment: the target, the source and the events afterwards.\<close>

definition thread_move_assign ::
  "std_thread \<Rightarrow> std_thread \<Rightarrow> event list \<Rightarrow> std_thread \<times> std_thread \<times> event list" where
  "thread_move_assign tgt src es =
     (if joinable tgt then (tgt, src, es @ [Terminate_called])
      else (src, Thread None, es))"

section \<open>Item 37: ThreadRAII (item37.cxx)\<close>

text \<open>
  \<^verbatim>\<open>enum class DtorAction { join, detach }\<close> and the two data members of the class,
  \<^verbatim>\<open>DtorAction action; std::thread t;\<close>. The copies of the class in item39.cxx and
  item40.cxx declare the same two members in the same order, so one record represents
  the objects of all three; the member functions of each file are translated from that
  file, below.
\<close>

datatype DtorAction = DtorAction_join | DtorAction_detach

record ThreadRAII =
  action :: DtorAction
  t :: std_thread

text \<open>
  \<^verbatim>\<open>ThreadRAII(std::thread&& t, DtorAction a) : action(a), t(std::move(t)) {}\<close>: the new
  object and the thread object it was built from.
\<close>

definition ThreadRAII_ctor :: "std_thread \<Rightarrow> DtorAction \<Rightarrow> ThreadRAII \<times> std_thread" where
  "ThreadRAII_ctor th a =
     (let (member, src) = thread_move th in (\<lparr>action = a, t = member\<rparr>, src))"

text \<open>
  The body of \<^verbatim>\<open>~ThreadRAII()\<close>, run by the thread \<open>caller\<close>. Then the members are
  destroyed, \<open>t\<close> by the destructor of \<^verbatim>\<open>std::thread\<close>. A destructor is \<^verbatim>\<open>noexcept\<close>: an
  exception that leaves the body calls \<^verbatim>\<open>std::terminate\<close>.
\<close>

definition ThreadRAII_dtor_body ::
  "implementation \<Rightarrow> nat \<Rightarrow> ThreadRAII \<Rightarrow> event list \<Rightarrow> failure + (ThreadRAII \<times> event list)" where
  "ThreadRAII_dtor_body sys caller r es =
     (if joinable (t r) then
        (if action r = DtorAction_join then
           (case thread_join sys caller (t r) es of
              Inl e \<Rightarrow> Inl e
            | Inr (th, es') \<Rightarrow> Inr (r\<lparr>t := th\<rparr>, es'))
         else
           (case thread_detach sys caller (t r) es of
              Inl e \<Rightarrow> Inl e
            | Inr (th, es') \<Rightarrow> Inr (r\<lparr>t := th\<rparr>, es')))
      else Inr (r, es))"

definition ThreadRAII_dtor ::
  "implementation \<Rightarrow> nat \<Rightarrow> ThreadRAII \<Rightarrow> event list \<Rightarrow> event list" where
  "ThreadRAII_dtor sys caller r es =
     (case ThreadRAII_dtor_body sys caller r es of
        Inl e \<Rightarrow> es @ [Terminate_called]
      | Inr (r', es') \<Rightarrow> thread_dtor (t r') es')"

text \<open>
  \<^verbatim>\<open>ThreadRAII(ThreadRAII&&) = default\<close> and \<^verbatim>\<open>operator=(ThreadRAII&&) = default\<close>
  move member by member, in the order of declaration.
\<close>

definition ThreadRAII_move_ctor :: "ThreadRAII \<Rightarrow> ThreadRAII \<times> ThreadRAII" where
  "ThreadRAII_move_ctor other =
     (let a = action other;
          (member, src) = thread_move (t other)
      in (\<lparr>action = a, t = member\<rparr>, other\<lparr>t := src\<rparr>))"

definition ThreadRAII_move_assign ::
  "ThreadRAII \<Rightarrow> ThreadRAII \<Rightarrow> event list \<Rightarrow> ThreadRAII \<times> ThreadRAII \<times> event list" where
  "ThreadRAII_move_assign this other es =
     (let a = action other;
          (member, src, es') = thread_move_assign (t this) (t other) es
      in (\<lparr>action = a, t = member\<rparr>, other\<lparr>t := src\<rparr>, es'))"

text \<open>\<^verbatim>\<open>std::thread& get() { return t; }\<close>\<close>

definition ThreadRAII_get :: "ThreadRAII \<Rightarrow> std_thread" where
  "ThreadRAII_get r = t r"

section \<open>The copy of ThreadRAII in item39.cxx\<close>

text \<open>
  The class as item39.cxx declares it (lines 83 to 109): the constructor, the destructor with
  its body, the defaulted move operations and \<^verbatim>\<open>get\<close>, in the order of the file.
\<close>

definition ThreadRAII_ctor_item39 :: "std_thread \<Rightarrow> DtorAction \<Rightarrow> ThreadRAII \<times> std_thread" where
  "ThreadRAII_ctor_item39 th a =
     (let (member, src) = thread_move th in (\<lparr>action = a, t = member\<rparr>, src))"

definition ThreadRAII_dtor_body_item39 ::
  "implementation \<Rightarrow> nat \<Rightarrow> ThreadRAII \<Rightarrow> event list \<Rightarrow> failure + (ThreadRAII \<times> event list)" where
  "ThreadRAII_dtor_body_item39 sys caller r es =
     (if joinable (t r) then
        (if action r = DtorAction_join then
           (case thread_join sys caller (t r) es of
              Inl e \<Rightarrow> Inl e
            | Inr (th, es') \<Rightarrow> Inr (r\<lparr>t := th\<rparr>, es'))
         else
           (case thread_detach sys caller (t r) es of
              Inl e \<Rightarrow> Inl e
            | Inr (th, es') \<Rightarrow> Inr (r\<lparr>t := th\<rparr>, es')))
      else Inr (r, es))"

definition ThreadRAII_dtor_item39 ::
  "implementation \<Rightarrow> nat \<Rightarrow> ThreadRAII \<Rightarrow> event list \<Rightarrow> event list" where
  "ThreadRAII_dtor_item39 sys caller r es =
     (case ThreadRAII_dtor_body_item39 sys caller r es of
        Inl e \<Rightarrow> es @ [Terminate_called]
      | Inr (r', es') \<Rightarrow> thread_dtor (t r') es')"

definition ThreadRAII_move_ctor_item39 :: "ThreadRAII \<Rightarrow> ThreadRAII \<times> ThreadRAII" where
  "ThreadRAII_move_ctor_item39 other =
     (let a = action other;
          (member, src) = thread_move (t other)
      in (\<lparr>action = a, t = member\<rparr>, other\<lparr>t := src\<rparr>))"

definition ThreadRAII_move_assign_item39 ::
  "ThreadRAII \<Rightarrow> ThreadRAII \<Rightarrow> event list \<Rightarrow> ThreadRAII \<times> ThreadRAII \<times> event list" where
  "ThreadRAII_move_assign_item39 this other es =
     (let a = action other;
          (member, src, es') = thread_move_assign (t this) (t other) es
      in (\<lparr>action = a, t = member\<rparr>, other\<lparr>t := src\<rparr>, es'))"

definition ThreadRAII_get_item39 :: "ThreadRAII \<Rightarrow> std_thread" where
  "ThreadRAII_get_item39 r = t r"

section \<open>The copy of ThreadRAII in item40.cxx\<close>

text \<open>
  The class as item40.cxx declares it (lines 76 to 102): the constructor, the destructor with
  its body, the defaulted move operations and \<^verbatim>\<open>get\<close>, in the order of the file.
\<close>

definition ThreadRAII_ctor_item40 :: "std_thread \<Rightarrow> DtorAction \<Rightarrow> ThreadRAII \<times> std_thread" where
  "ThreadRAII_ctor_item40 th a =
     (let (member, src) = thread_move th in (\<lparr>action = a, t = member\<rparr>, src))"

definition ThreadRAII_dtor_body_item40 ::
  "implementation \<Rightarrow> nat \<Rightarrow> ThreadRAII \<Rightarrow> event list \<Rightarrow> failure + (ThreadRAII \<times> event list)" where
  "ThreadRAII_dtor_body_item40 sys caller r es =
     (if joinable (t r) then
        (if action r = DtorAction_join then
           (case thread_join sys caller (t r) es of
              Inl e \<Rightarrow> Inl e
            | Inr (th, es') \<Rightarrow> Inr (r\<lparr>t := th\<rparr>, es'))
         else
           (case thread_detach sys caller (t r) es of
              Inl e \<Rightarrow> Inl e
            | Inr (th, es') \<Rightarrow> Inr (r\<lparr>t := th\<rparr>, es')))
      else Inr (r, es))"

definition ThreadRAII_dtor_item40 ::
  "implementation \<Rightarrow> nat \<Rightarrow> ThreadRAII \<Rightarrow> event list \<Rightarrow> event list" where
  "ThreadRAII_dtor_item40 sys caller r es =
     (case ThreadRAII_dtor_body_item40 sys caller r es of
        Inl e \<Rightarrow> es @ [Terminate_called]
      | Inr (r', es') \<Rightarrow> thread_dtor (t r') es')"

definition ThreadRAII_move_ctor_item40 :: "ThreadRAII \<Rightarrow> ThreadRAII \<times> ThreadRAII" where
  "ThreadRAII_move_ctor_item40 other =
     (let a = action other;
          (member, src) = thread_move (t other)
      in (\<lparr>action = a, t = member\<rparr>, other\<lparr>t := src\<rparr>))"

definition ThreadRAII_move_assign_item40 ::
  "ThreadRAII \<Rightarrow> ThreadRAII \<Rightarrow> event list \<Rightarrow> ThreadRAII \<times> ThreadRAII \<times> event list" where
  "ThreadRAII_move_assign_item40 this other es =
     (let a = action other;
          (member, src, es') = thread_move_assign (t this) (t other) es
      in (\<lparr>action = a, t = member\<rparr>, other\<lparr>t := src\<rparr>, es'))"

definition ThreadRAII_get_item40 :: "ThreadRAII \<Rightarrow> std_thread" where
  "ThreadRAII_get_item40 r = t r"

section \<open>Item 37: doWork (item37.cxx)\<close>

text \<open>
  \<^verbatim>\<open>int\<close> is a 32-bit two's complement integer whose largest value is \<open>INT_MAX\<close>.
  The values of the type are modelled as mathematical integers; an increment that
  would leave the range is undefined behaviour in C++ and is an outcome of its own,
  \<open>Signed_overflow\<close>.
\<close>

definition INT_MAX :: int where
  "INT_MAX = 2147483647"

definition tenMillion :: int where
  "tenMillion = 10000000"

text \<open>
  The body of the lambda that the worker thread runs,
  \<^verbatim>\<open>for (auto i = 0; i <= maxVal; ++i) { if (filter(i)) goodVals.push_back(i); }\<close>,
  from the current \<open>i\<close> and \<open>goodVals\<close> on. The filter is a function that returns for
  every argument.
\<close>

function worker_loop :: "(int \<Rightarrow> bool) \<Rightarrow> int \<Rightarrow> int \<Rightarrow> int list \<Rightarrow> failure + int list" where
  "worker_loop filter_p maxVal i goodVals =
     (if i \<le> maxVal then
        (let goodVals' = (if filter_p i then goodVals @ [i] else goodVals) in
         if i = INT_MAX then Inl Signed_overflow
         else worker_loop filter_p maxVal (i + 1) goodVals')
      else Inr goodVals)"
  by pat_completeness auto
termination
  by (relation "measure (\<lambda>(filter_p, maxVal, i, goodVals). nat (maxVal + 1 - i))") auto

declare worker_loop.simps [simp del]

text \<open>
  \<^verbatim>\<open>doWork(filter, maxVal)\<close>, called by the thread \<open>caller\<close>. The system gives the new
  thread the id \<open>tid\<close>. The temporary \<^verbatim>\<open>std::thread\<close> is moved into the \<open>ThreadRAII\<close>
  object and destroyed at the end of the declaration. \<^verbatim>\<open>t.get().join()\<close> returns when
  the lambda has finished, and what the lambda wrote to \<open>goodVals\<close> is visible from
  then on. The \<open>ThreadRAII\<close> object is destroyed when the function is left, on either
  \<^verbatim>\<open>return\<close>. The result is the returned value, \<open>goodVals\<close> at the \<^verbatim>\<open>return\<close> statement,
  the \<open>ThreadRAII\<close> object at the \<^verbatim>\<open>return\<close> statement and the events up to the end of
  the call.
\<close>

definition doWork ::
  "implementation \<Rightarrow> nat \<Rightarrow> (int \<Rightarrow> bool) \<Rightarrow> int \<Rightarrow> nat \<Rightarrow>
   failure + (bool \<times> int list \<times> ThreadRAII \<times> event list)" where
  "doWork sys caller filter_p maxVal tid =
     (let goodVals = [];
          lambda = worker_loop filter_p maxVal 0;
          (raii, temp) = ThreadRAII_ctor (Thread (Some tid)) DtorAction_join;
          es = thread_dtor temp []
      in
      if True then
        (case lambda goodVals of
           Inl f \<Rightarrow> Inl f
         | Inr goodVals' \<Rightarrow>
             (case thread_join sys caller (ThreadRAII_get raii) es of
                Inl e \<Rightarrow> Inl e
              | Inr (th, es') \<Rightarrow>
                  (let raii' = raii\<lparr>t := th\<rparr> in
                   Inr (True, goodVals', raii', ThreadRAII_dtor sys caller raii' es'))))
      else
        (case lambda goodVals of
           Inl f \<Rightarrow> Inl f
         | Inr goodVals' \<Rightarrow>
             Inr (False, goodVals', raii, ThreadRAII_dtor sys caller raii es)))"

section \<open>std::shared_ptr and std::weak_ptr, as item 20 uses them\<close>

text \<open>
  \<^verbatim>\<open>class Widget { public: int x = 0; };\<close> (namespace item20).
\<close>

datatype Widget = Widget (Widget_x: int)

text \<open>
  The control block of a shared object, as the comment in item20.cxx draws it: the
  reference count, the weak count, and here also the object, which is destroyed
  (\<open>None\<close>) when the reference count reaches 0. The control blocks are kept in a list
  and a smart pointer holds the index of its control block, or nothing when it is
  empty (null).
\<close>

record control_block =
  use_count :: nat
  weak_count :: nat
  object :: "Widget option"

type_synonym shared_ptr = "nat option"
type_synonym weak_ptr = "nat option"

text \<open>\<^verbatim>\<open>std::make_shared<Widget>()\<close>: a new object with a new control block, owned once.\<close>

definition make_shared :: "control_block list \<Rightarrow> shared_ptr \<times> control_block list" where
  "make_shared h =
     (Some (length h), h @ [\<lparr>use_count = 1, weak_count = 0, object = Some (Widget 0)\<rparr>])"

text \<open>\<^verbatim>\<open>use_count()\<close> of a shared or weak pointer: 0 when it is empty.\<close>

definition use_count_of :: "nat option \<Rightarrow> control_block list \<Rightarrow> nat" where
  "use_count_of p h =
     (case p of
        None \<Rightarrow> 0
      | Some a \<Rightarrow> if a < length h then use_count (h ! a) else 0)"

text \<open>\<^verbatim>\<open>std::weak_ptr<Widget> wpw(spw)\<close>: shares the control block and counts as a weak owner.\<close>

definition weak_ptr_ctor :: "shared_ptr \<Rightarrow> control_block list \<Rightarrow> weak_ptr \<times> control_block list" where
  "weak_ptr_ctor sp h =
     (case sp of
        None \<Rightarrow> (None, h)
      | Some a \<Rightarrow>
          if a < length h then (Some a, h[a := (h ! a)\<lparr>weak_count := weak_count (h ! a) + 1\<rparr>])
          else (None, h))"

text \<open>
  A shared pointer gives up its ownership (its destructor, or the first half of an
  assignment): the reference count goes down by one, and the object is destroyed when
  the count reaches 0.
\<close>

definition shared_ptr_release :: "shared_ptr \<Rightarrow> control_block list \<Rightarrow> control_block list" where
  "shared_ptr_release sp h =
     (case sp of
        None \<Rightarrow> h
      | Some a \<Rightarrow>
          if a < length h then
            (let n = use_count (h ! a) - 1 in
             h[a := (h ! a)\<lparr>use_count := n, object := (if n = 0 then None else object (h ! a))\<rparr>])
          else h)"

text \<open>\<^verbatim>\<open>sp = nullptr\<close>: the pointer releases what it owned and is null afterwards.\<close>

definition shared_ptr_assign_nullptr :: "shared_ptr \<Rightarrow> control_block list \<Rightarrow> shared_ptr \<times> control_block list" where
  "shared_ptr_assign_nullptr sp h = (None, shared_ptr_release sp h)"

text \<open>\<^verbatim>\<open>wp.expired()\<close> is \<^verbatim>\<open>use_count() == 0\<close>.\<close>

definition expired :: "weak_ptr \<Rightarrow> control_block list \<Rightarrow> bool" where
  "expired wp h = (use_count_of wp h = 0)"

text \<open>
  A shared pointer that shares ownership with a weak pointer that has not expired: the
  reference count goes up by one.
\<close>

definition shared_ptr_share :: "weak_ptr \<Rightarrow> control_block list \<Rightarrow> shared_ptr \<times> control_block list" where
  "shared_ptr_share wp h =
     (case wp of
        None \<Rightarrow> (None, h)
      | Some a \<Rightarrow>
          if a < length h then (Some a, h[a := (h ! a)\<lparr>use_count := use_count (h ! a) + 1\<rparr>])
          else (None, h))"

text \<open>\<^verbatim>\<open>wp.lock()\<close> is \<^verbatim>\<open>expired() ? shared_ptr<T>() : shared_ptr<T>(*this)\<close>, atomically.\<close>

definition lock :: "weak_ptr \<Rightarrow> control_block list \<Rightarrow> shared_ptr \<times> control_block list" where
  "lock wp h = (if expired wp h then (None, h) else shared_ptr_share wp h)"

text \<open>
  \<^verbatim>\<open>std::shared_ptr<Widget> sp(wp)\<close>, the constructor from a weak pointer: throws
  \<^verbatim>\<open>std::bad_weak_ptr\<close> if \<open>wp\<close> has expired.
\<close>

datatype exception = Bad_weak_ptr

definition shared_ptr_from_weak ::
  "weak_ptr \<Rightarrow> control_block list \<Rightarrow> exception + (shared_ptr \<times> control_block list)" where
  "shared_ptr_from_weak wp h =
     (if expired wp h then Inl Bad_weak_ptr else Inr (shared_ptr_share wp h))"

section \<open>Item 20: main (item20.cxx)\<close>

text \<open>
  The state of \<^verbatim>\<open>main\<close>: its local variables, what it has written to \<^verbatim>\<open>std::cout\<close>,
  and the control blocks. \<^verbatim>\<open>main\<close> starts from any control blocks \<open>h0\<close>: the objects
  with static storage duration of namespace item19 in the same file are initialised
  before it.
\<close>

record item20_locals =
  spw :: shared_ptr
  wpw :: weak_ptr
  spw1 :: shared_ptr
  spw2 :: shared_ptr
  cout :: string
  blocks :: "control_block list"

definition newline :: string where
  "newline = [CHR 0x0A]"

text \<open>Lines 227 to 232: \<open>spw\<close> is made, \<open>wpw\<close> observes it, \<open>spw\<close> is set to null.\<close>

definition item20_reset_spw :: "control_block list \<Rightarrow> item20_locals" where
  "item20_reset_spw h0 =
     (let (sp, h1) = make_shared h0;
          (wp, h2) = weak_ptr_ctor sp h1;
          (sp', h3) = shared_ptr_assign_nullptr sp h2
      in \<lparr>spw = sp', wpw = wp, spw1 = None, spw2 = None, cout = [], blocks = h3\<rparr>)"

text \<open>Lines 234 to 236: \<^verbatim>\<open>if (wpw.expired()) { std::cout << "wpw has expired" << '\n'; }\<close>\<close>

definition item20_report :: "item20_locals \<Rightarrow> item20_locals" where
  "item20_report s =
     (if expired (wpw s) (blocks s) then s\<lparr>cout := cout s @ ''wpw has expired'' @ newline\<rparr>
      else s)"

text \<open>Lines 242 and 244: \<open>spw1\<close> and \<open>spw2\<close> are initialised with \<^verbatim>\<open>wpw.lock()\<close>.\<close>

definition item20_locks :: "item20_locals \<Rightarrow> item20_locals" where
  "item20_locks s =
     (let (p1, h1) = lock (wpw s) (blocks s);
          (p2, h2) = lock (wpw s) h1
      in s\<lparr>spw1 := p1, spw2 := p2, blocks := h2\<rparr>)"

text \<open>
  Lines 248 to 252: the \<^verbatim>\<open>try\<close> block constructs \<open>spw3\<close> from \<open>wpw\<close> and destroys it at
  the end of the block; the handler for \<^verbatim>\<open>std::bad_weak_ptr\<close> prints \<^verbatim>\<open>e.what()\<close> and a
  newline. The text of \<^verbatim>\<open>what()\<close> is chosen by the implementation of the library and
  is a parameter.
\<close>

definition item20_try :: "string \<Rightarrow> item20_locals \<Rightarrow> item20_locals" where
  "item20_try what s =
     (case shared_ptr_from_weak (wpw s) (blocks s) of
        Inr (spw3, h) \<Rightarrow> s\<lparr>blocks := shared_ptr_release spw3 h\<rparr>
      | Inl Bad_weak_ptr \<Rightarrow> s\<lparr>cout := cout s @ what @ newline\<rparr>)"

text \<open>\<^verbatim>\<open>main\<close>: the value it returns and its state at \<^verbatim>\<open>return 0\<close>.\<close>

definition main_item20 :: "string \<Rightarrow> control_block list \<Rightarrow> int \<times> item20_locals" where
  "main_item20 what h0 =
     (let s1 = item20_reset_spw h0;
          s2 = item20_report s1;
          s3 = item20_locks s2;
          s4 = item20_try what s3
      in (0, s4))"

section \<open>Item 36: std::async with the default launch policy (item36.cxx)\<close>

text \<open>
  \<^verbatim>\<open>std::future_status\<close> and the two ways in which the default launch policy
  (\<^verbatim>\<open>std::launch::async | std::launch::deferred\<close>) may run a task.
\<close>

datatype future_status = ready | timeout | deferred

datatype launch = launch_async | launch_deferred

text \<open>
  The future that \<^verbatim>\<open>std::async\<close> returns: how its task was launched and, for a task
  that runs on another thread, the time in milliseconds until it finishes.
\<close>

record future =
  policy :: launch
  remaining :: nat

text \<open>
  \<^verbatim>\<open>void f() { std::this_thread::sleep_for(1s); }\<close> runs for 1000 ms. With
  \<^verbatim>\<open>std::async(f)\<close> the implementation chooses how to launch, and a thread that it
  starts begins to run \<open>f\<close> after some delay.
\<close>

definition f_duration :: nat where
  "f_duration = 1000"

definition std_async :: "launch \<Rightarrow> nat \<Rightarrow> future" where
  "std_async chosen delay = \<lparr>policy = chosen, remaining = delay + f_duration\<rparr>"

text \<open>
  \<^verbatim>\<open>fut.wait_for(d)\<close>, \<open>d\<close> in milliseconds: \<^verbatim>\<open>deferred\<close> at once for a deferred task,
  which it does not run; \<^verbatim>\<open>ready\<close> when the task finishes within \<open>d\<close>; otherwise
  \<^verbatim>\<open>timeout\<close> after \<open>d\<close>.
\<close>

definition wait_for :: "nat \<Rightarrow> future \<Rightarrow> future_status \<times> future" where
  "wait_for d fut =
     (if policy fut = launch_deferred then (deferred, fut)
      else if remaining fut \<le> d then (ready, fut\<lparr>remaining := 0\<rparr>)
      else (timeout, fut\<lparr>remaining := remaining fut - d\<rparr>))"

text \<open>
  \<^verbatim>\<open>while (fut.wait_for(100ms) != std::future_status::ready) { }\<close>, with the number
  of calls of \<^verbatim>\<open>wait_for\<close> made so far. The loop need not end, so its result is
  optional: \<open>None\<close> when it runs forever.
\<close>

partial_function (option) poll_until_ready :: "future \<Rightarrow> nat \<Rightarrow> (future \<times> nat) option" where
  "poll_until_ready fut polls =
     (case wait_for 100 fut of
        (status, fut') \<Rightarrow>
          if status \<noteq> ready then poll_until_ready fut' (polls + 1)
          else Some (fut', polls + 1))"

text \<open>
  \<^verbatim>\<open>main\<close> of item36.cxx: the value it returns and the number of calls of
  \<^verbatim>\<open>wait_for(100ms)\<close>, or \<open>None\<close> when it does not return.
\<close>

definition main_item36 :: "launch \<Rightarrow> nat \<Rightarrow> (int \<times> nat) option" where
  "main_item36 chosen delay =
     (let fut = std_async chosen delay in
      case wait_for 0 fut of
        (status, fut1) \<Rightarrow>
          if status = deferred then Some (0, 0)
          else
            (case poll_until_ready fut1 0 of
               None \<Rightarrow> None
             | Some (fut2, polls) \<Rightarrow> Some (0, polls)))"

section \<open>Text written to std::cout\<close>


fun show_nat :: "nat \<Rightarrow> string" where
  "show_nat n =
     (if n < 10 then [''0123456789'' ! n]
      else show_nat (n div 10) @ [''0123456789'' ! (n mod 10)])"

declare show_nat.simps [simp del]


section \<open>Item 1: main (item1.cxx)\<close>













section \<open>Item 3: main (item3.cxx)\<close>



section \<open>Item 4: main (item4.cxx)\<close>





section \<open>Item 15: main (item15.cxx)\<close>


section \<open>Item 23: main (item23.cxx)\<close>






section \<open>Item 34: main (item34.cxx)\<close>




section \<open>Item 40: main (item40.cxx)\<close>


section \<open>Item 41: main (item41.cxx)\<close>




section \<open>Main functions that only return\<close>






section \<open>Properties of item 18\<close>

text \<open>
  C10. For every argument pack and every state of the free store, \<open>makeInvestment\<close>
  returns a pointer that is not null; it owns an object at an address that was not
  allocated before the call, that object is a \<open>Stock\<close>, and nothing else in the store
  has changed (no \<open>Bond\<close> and no \<open>RealEstate\<close> is created).
\<close>

theorem makeInvestment_returns_new_Stock:
  "fst (makeInvestment params h) \<noteq> None \<and>
   fst (makeInvestment params h) = Some (length h) \<and>
   snd (makeInvestment params h) = h @ [Some Stock] \<and>
   snd (makeInvestment params h) ! length h = Some Stock \<and>
   take (length h) (snd (makeInvestment params h)) = h"
  by (simp add: makeInvestment_def new_obj_def reset_def)

section \<open>Properties of ThreadRAII\<close>

lemma ThreadRAII_dtor_not_joinable:
  "\<not> joinable (t r) \<Longrightarrow> ThreadRAII_dtor sys caller r es = es"
  by (simp add: ThreadRAII_dtor_def ThreadRAII_dtor_body_def thread_dtor_def)




text \<open>
  Destructions by thread 1 on an implementation that reports no error: a detach after
  an earlier join of another thread, a join, and an object whose thread is not joinable.
\<close>

lemma ThreadRAII_dtor_examples:
  "ThreadRAII_dtor no_error_reported 1 \<lparr>action = DtorAction_detach, t = Thread (Some 5)\<rparr>
     [Joined 2] = [Joined 2, Detached 5] \<and>
   ThreadRAII_dtor no_error_reported 1 \<lparr>action = DtorAction_join, t = Thread (Some 5)\<rparr> [] =
     [Joined 5] \<and>
   ThreadRAII_dtor no_error_reported 1 \<lparr>action = DtorAction_join, t = Thread None\<rparr> [] = []"
  by (simp add: ThreadRAII_dtor_def ThreadRAII_dtor_body_def thread_join_def thread_detach_def
      thread_dtor_def joinable_def no_error_reported_def)

text \<open>
  C5. The member functions of the three copies of \<open>ThreadRAII\<close> (item37.cxx,
  item39.cxx, item40.cxx) agree on every input: construction, destruction (the body
  and the whole destructor), move construction, move assignment and \<open>get\<close>.
\<close>

theorem ThreadRAII_copies_agree:
  "ThreadRAII_ctor_item39 th a = ThreadRAII_ctor th a \<and>
   ThreadRAII_ctor_item40 th a = ThreadRAII_ctor th a \<and>
   ThreadRAII_dtor_body_item39 sys caller r es = ThreadRAII_dtor_body sys caller r es \<and>
   ThreadRAII_dtor_body_item40 sys caller r es = ThreadRAII_dtor_body sys caller r es \<and>
   ThreadRAII_dtor_item39 sys caller r es = ThreadRAII_dtor sys caller r es \<and>
   ThreadRAII_dtor_item40 sys caller r es = ThreadRAII_dtor sys caller r es \<and>
   ThreadRAII_move_ctor_item39 r = ThreadRAII_move_ctor r \<and>
   ThreadRAII_move_ctor_item40 r = ThreadRAII_move_ctor r \<and>
   ThreadRAII_move_assign_item39 r r2 es = ThreadRAII_move_assign r r2 es \<and>
   ThreadRAII_move_assign_item40 r r2 es = ThreadRAII_move_assign r r2 es \<and>
   ThreadRAII_get_item39 r = ThreadRAII_get r \<and>
   ThreadRAII_get_item40 r = ThreadRAII_get r"
proof -
  have ctor: "ThreadRAII_ctor_item39 th a = ThreadRAII_ctor th a"
    "ThreadRAII_ctor_item40 th a = ThreadRAII_ctor th a"
    by (simp_all add: ThreadRAII_ctor_item39_def ThreadRAII_ctor_item40_def ThreadRAII_ctor_def)
  have body: "ThreadRAII_dtor_body_item39 sys caller r es = ThreadRAII_dtor_body sys caller r es"
    "ThreadRAII_dtor_body_item40 sys caller r es = ThreadRAII_dtor_body sys caller r es"
    by (simp_all add: ThreadRAII_dtor_body_item39_def ThreadRAII_dtor_body_item40_def
        ThreadRAII_dtor_body_def)
  have dtor: "ThreadRAII_dtor_item39 sys caller r es = ThreadRAII_dtor sys caller r es"
    "ThreadRAII_dtor_item40 sys caller r es = ThreadRAII_dtor sys caller r es"
    by (simp_all add: ThreadRAII_dtor_item39_def ThreadRAII_dtor_item40_def ThreadRAII_dtor_def
        body)
  have mctor: "ThreadRAII_move_ctor_item39 r = ThreadRAII_move_ctor r"
    "ThreadRAII_move_ctor_item40 r = ThreadRAII_move_ctor r"
    by (simp_all add: ThreadRAII_move_ctor_item39_def ThreadRAII_move_ctor_item40_def
        ThreadRAII_move_ctor_def)
  have massign: "ThreadRAII_move_assign_item39 r r2 es = ThreadRAII_move_assign r r2 es"
    "ThreadRAII_move_assign_item40 r r2 es = ThreadRAII_move_assign r r2 es"
    by (simp_all add: ThreadRAII_move_assign_item39_def ThreadRAII_move_assign_item40_def
        ThreadRAII_move_assign_def)
  have getter: "ThreadRAII_get_item39 r = ThreadRAII_get r"
    "ThreadRAII_get_item40 r = ThreadRAII_get r"
    by (simp_all add: ThreadRAII_get_item39_def ThreadRAII_get_item40_def ThreadRAII_get_def)
  show ?thesis
    using ctor body dtor mctor massign getter by simp
qed

section \<open>Properties of doWork\<close>

text \<open>
  Below \<open>INT_MAX\<close> the loop of the worker appends to \<open>goodVals\<close> the values from \<open>i\<close>
  to \<open>maxVal\<close> that satisfy the filter, in increasing order.
\<close>

lemma worker_loop_collects:
  "maxVal < INT_MAX \<Longrightarrow>
   worker_loop filter_p maxVal i goodVals = Inr (goodVals @ filter filter_p [i..maxVal])"
proof (induction filter_p maxVal i goodVals rule: worker_loop.induct)
  case (1 filter_p maxVal i goodVals)
  show ?case
  proof (cases "i \<le> maxVal")
    case True
    then have ne: "i \<noteq> INT_MAX" using "1.prems" by simp
    have up: "[i..maxVal] = i # [i + 1..maxVal]" using True by (simp add: upto_rec1)
    have "worker_loop filter_p maxVal i goodVals =
          worker_loop filter_p maxVal (i + 1) (if filter_p i then goodVals @ [i] else goodVals)"
      using True ne by (subst worker_loop.simps) (simp add: Let_def)
    also have "\<dots> = Inr ((if filter_p i then goodVals @ [i] else goodVals) @
                          filter filter_p [i + 1..maxVal])"
      using "1.IH" [OF True refl ne "1.prems"] .
    finally show ?thesis by (simp add: up)
  next
    case False
    then show ?thesis by (subst worker_loop.simps) simp
  qed
qed

text \<open>
  With \<open>maxVal = INT_MAX\<close> the condition \<open>i \<le> maxVal\<close> holds for every \<open>int\<close>, and the
  loop reaches the increment of \<open>INT_MAX\<close>.
\<close>

lemma worker_loop_overflows:
  "i \<le> INT_MAX \<Longrightarrow> nat (INT_MAX - i) = n \<Longrightarrow>
   worker_loop filter_p INT_MAX i goodVals = Inl Signed_overflow"
proof (induction n arbitrary: i goodVals)
  case 0
  then have "i = INT_MAX" by simp
  then show ?case by (subst worker_loop.simps) simp
next
  case (Suc n)
  then have lt: "i < INT_MAX" by simp
  have "worker_loop filter_p INT_MAX i goodVals =
        worker_loop filter_p INT_MAX (i + 1) (if filter_p i then goodVals @ [i] else goodVals)"
    using lt by (subst worker_loop.simps) (simp add: Let_def)
  also have "\<dots> = Inl Signed_overflow"
    using Suc.IH [of "i + 1"] Suc.prems by simp
  finally show ?case .
qed

text \<open>
  For every \<open>maxVal\<close> below \<open>INT_MAX\<close>, \<open>doWork\<close> returns \<open>true\<close> when the join of the new
  thread does not throw (the new thread is not the caller, and the implementation
  reports no error); at the \<^verbatim>\<open>return\<close> the thread has been joined (the \<open>ThreadRAII\<close>
  object holds a thread that is not joinable, and the one event is the join), and
  \<open>goodVals\<close> holds the values from 0 to \<open>maxVal\<close> that satisfy the filter, in increasing
  order.
\<close>

lemma doWork_below_INT_MAX:
  "maxVal < INT_MAX \<Longrightarrow> tid \<noteq> caller \<Longrightarrow> sys Op_join caller tid = None \<Longrightarrow>
   doWork sys caller filter_p maxVal tid =
     Inr (True, filter filter_p [0..maxVal],
          \<lparr>action = DtorAction_join, t = Thread None\<rparr>, [Joined tid])"
  by (simp add: doWork_def worker_loop_collects ThreadRAII_ctor_def thread_move_def
      thread_dtor_def joinable_def thread_join_def ThreadRAII_get_def ThreadRAII_dtor_def
      ThreadRAII_dtor_body_def)

text \<open>
  Called without \<open>maxVal\<close>, \<open>doWork\<close> uses the default \<open>tenMillion\<close>, which is below
  \<open>INT_MAX\<close>.
\<close>

lemma doWork_default_maxVal:
  "tid \<noteq> caller \<Longrightarrow> sys Op_join caller tid = None \<Longrightarrow>
   doWork sys caller filter_p tenMillion tid =
     Inr (True, filter filter_p [0..tenMillion],
          \<lparr>action = DtorAction_join, t = Thread None\<rparr>, [Joined tid])"
  by (rule doWork_below_INT_MAX) (simp_all add: tenMillion_def INT_MAX_def)

text \<open>
  C3. \<open>doWork\<close> returns \<open>true\<close>, with the thread joined and \<open>goodVals\<close> holding the values
  from 0 to \<open>maxVal\<close> that satisfy the filter, for every \<open>maxVal\<close> below \<open>INT_MAX\<close>
  (\<open>doWork_below_INT_MAX\<close>), but not for every \<open>maxVal \<ge> 0\<close>: at \<open>maxVal = INT_MAX\<close>, for
  every filter, the loop of the worker increments \<open>i = INT_MAX\<close>, which is undefined
  behaviour, and \<open>doWork\<close> has no result.
\<close>

theorem doWork_INT_MAX_overflows:
  "doWork sys caller filter_p INT_MAX tid = Inl Signed_overflow"
proof -
  have "worker_loop filter_p INT_MAX 0 [] = Inl Signed_overflow"
    by (rule worker_loop_overflows [OF _ refl]) (simp add: INT_MAX_def)
  then show ?thesis
    by (simp add: doWork_def)
qed

section \<open>Properties of item 20\<close>

text \<open>
  When the only owner of an object releases it, every weak pointer to its control
  block has expired and \<open>lock\<close> yields a null pointer.
\<close>

lemma release_last_owner_expires:
  "a < length h \<Longrightarrow> use_count (h ! a) = 1 \<Longrightarrow>
   expired (Some a) (shared_ptr_release (Some a) h)"
  by (simp add: expired_def use_count_of_def shared_ptr_release_def)

lemma lock_expired:
  "expired wp h \<Longrightarrow> lock wp h = (None, h)"
  by (simp add: lock_def)

text \<open>The state of \<^verbatim>\<open>main\<close> after each of its parts.\<close>

lemma item20_reset_spw_state:
  "item20_reset_spw h0 =
     \<lparr>spw = None, wpw = Some (length h0), spw1 = None, spw2 = None, cout = [],
      blocks = h0 @ [\<lparr>use_count = 0, weak_count = 1, object = None\<rparr>]\<rparr>"
  by (simp add: item20_reset_spw_def make_shared_def weak_ptr_ctor_def
      shared_ptr_assign_nullptr_def shared_ptr_release_def Let_def)

lemma item20_wpw_expired:
  "expired (Some (length h0)) (h0 @ [\<lparr>use_count = 0, weak_count = 1, object = None\<rparr>])"
  by (simp add: expired_def use_count_of_def)

lemma item20_report_state:
  "item20_report (item20_reset_spw h0) =
     \<lparr>spw = None, wpw = Some (length h0), spw1 = None, spw2 = None,
      cout = ''wpw has expired'' @ newline,
      blocks = h0 @ [\<lparr>use_count = 0, weak_count = 1, object = None\<rparr>]\<rparr>"
  using item20_wpw_expired [of h0]
  by (simp add: item20_report_def item20_reset_spw_state)

lemma item20_locks_state:
  "item20_locks (item20_report (item20_reset_spw h0)) =
     item20_report (item20_reset_spw h0)"
  using item20_wpw_expired [of h0]
  by (simp add: item20_locks_def item20_report_state lock_expired)

lemma item20_try_state:
  "item20_try what (item20_report (item20_reset_spw h0)) =
     \<lparr>spw = None, wpw = Some (length h0), spw1 = None, spw2 = None,
      cout = ''wpw has expired'' @ newline @ what @ newline,
      blocks = h0 @ [\<lparr>use_count = 0, weak_count = 1, object = None\<rparr>]\<rparr>"
  using item20_wpw_expired [of h0]
  by (simp add: item20_try_def item20_report_state shared_ptr_from_weak_def)

lemma main_item20_state:
  "main_item20 what h0 =
     (0, \<lparr>spw = None, wpw = Some (length h0), spw1 = None, spw2 = None,
          cout = ''wpw has expired'' @ newline @ what @ newline,
          blocks = h0 @ [\<lparr>use_count = 0, weak_count = 1, object = None\<rparr>]\<rparr>)"
  by (simp add: main_item20_def Let_def item20_locks_state item20_try_state)

text \<open>
  C1. In \<^verbatim>\<open>main\<close> of item 20, after \<^verbatim>\<open>spw = nullptr\<close> the pointer \<open>spw\<close> is null and
  \<open>wpw\<close> has expired (the reference count of its control block is 0 and the Widget is
  destroyed); the program then prints "wpw has expired" and a newline, a call of
  \<^verbatim>\<open>wpw.lock()\<close> in that state yields a null pointer, and \<open>spw1\<close> and \<open>spw2\<close> are null
  when \<^verbatim>\<open>main\<close> returns.
\<close>

theorem item20_wpw_expires_after_reset:
  "spw (item20_reset_spw h0) = None \<and>
   expired (wpw (item20_reset_spw h0)) (blocks (item20_reset_spw h0)) \<and>
   use_count_of (wpw (item20_reset_spw h0)) (blocks (item20_reset_spw h0)) = 0 \<and>
   object (blocks (item20_reset_spw h0) ! length h0) = None \<and>
   cout (item20_report (item20_reset_spw h0)) = ''wpw has expired'' @ newline \<and>
   fst (lock (wpw (item20_report (item20_reset_spw h0)))
          (blocks (item20_report (item20_reset_spw h0)))) = None \<and>
   spw1 (snd (main_item20 what h0)) = None \<and>
   spw2 (snd (main_item20 what h0)) = None \<and>
   take 16 (cout (snd (main_item20 what h0))) = ''wpw has expired'' @ newline"
proof -
  have n: "spw (item20_reset_spw h0) = None"
    by (simp add: item20_reset_spw_state)
  have e: "expired (wpw (item20_reset_spw h0)) (blocks (item20_reset_spw h0))"
    using item20_wpw_expired [of h0] by (simp add: item20_reset_spw_state)
  then have u: "use_count_of (wpw (item20_reset_spw h0)) (blocks (item20_reset_spw h0)) = 0"
    by (simp add: expired_def)
  have o: "object (blocks (item20_reset_spw h0) ! length h0) = None"
    by (simp add: item20_reset_spw_state)
  have p: "cout (item20_report (item20_reset_spw h0)) = ''wpw has expired'' @ newline"
    by (simp add: item20_report_state)
  have l: "fst (lock (wpw (item20_report (item20_reset_spw h0)))
             (blocks (item20_report (item20_reset_spw h0)))) = None"
    using item20_wpw_expired [of h0] by (simp add: item20_report_state lock_expired)
  have s1: "spw1 (snd (main_item20 what h0)) = None"
    and s2: "spw2 (snd (main_item20 what h0)) = None"
    by (simp_all add: main_item20_state)
  have c: "take 16 (cout (snd (main_item20 what h0))) = ''wpw has expired'' @ newline"
    by (simp add: main_item20_state newline_def)
  from n e u o p l s1 s2 c show ?thesis
    by (intro conjI)
qed

text \<open>
  C2. The constructor of a shared pointer from a weak pointer throws
  \<^verbatim>\<open>std::bad_weak_ptr\<close> exactly when the weak pointer has expired. In \<^verbatim>\<open>main\<close> of
  item 20 \<open>wpw\<close> has expired at the \<^verbatim>\<open>try\<close> block, the construction of \<open>spw3\<close> throws,
  the handler prints the text of \<^verbatim>\<open>what()\<close> and a newline after what was printed
  before, and \<^verbatim>\<open>main\<close> goes on to return 0.
\<close>

theorem item20_bad_weak_ptr_caught:
  "(shared_ptr_from_weak wp h = Inl Bad_weak_ptr) = expired wp h \<and>
   shared_ptr_from_weak (wpw (item20_locks (item20_report (item20_reset_spw h0))))
     (blocks (item20_locks (item20_report (item20_reset_spw h0)))) = Inl Bad_weak_ptr \<and>
   cout (item20_try what (item20_locks (item20_report (item20_reset_spw h0)))) =
     cout (item20_locks (item20_report (item20_reset_spw h0))) @ what @ newline \<and>
   cout (snd (main_item20 what h0)) = ''wpw has expired'' @ newline @ what @ newline \<and>
   fst (main_item20 what h0) = 0"
proof -
  have iff: "(shared_ptr_from_weak wp h = Inl Bad_weak_ptr) = expired wp h"
    by (simp add: shared_ptr_from_weak_def)
  have thrown: "shared_ptr_from_weak (wpw (item20_locks (item20_report (item20_reset_spw h0))))
     (blocks (item20_locks (item20_report (item20_reset_spw h0)))) = Inl Bad_weak_ptr"
    unfolding item20_locks_state
    using item20_wpw_expired [of h0]
    by (simp add: item20_report_state shared_ptr_from_weak_def)
  have printed: "cout (item20_try what (item20_locks (item20_report (item20_reset_spw h0)))) =
     cout (item20_locks (item20_report (item20_reset_spw h0))) @ what @ newline"
    unfolding item20_locks_state item20_try_state
    by (simp add: item20_report_state)
  have out: "cout (snd (main_item20 what h0)) = ''wpw has expired'' @ newline @ what @ newline"
    and rv: "fst (main_item20 what h0) = 0"
    by (simp_all add: main_item20_state)
  from iff thrown printed out rv show ?thesis
    by (intro conjI)
qed

section \<open>Properties of item 36\<close>

text \<open>
  The polling loop alone never returns on a deferred task: \<^verbatim>\<open>wait_for\<close> keeps
  answering \<^verbatim>\<open>deferred\<close>, which is not \<^verbatim>\<open>ready\<close>.
\<close>

lemma poll_deferred_never_returns:
  "policy fut = launch_deferred \<Longrightarrow> poll_until_ready fut polls = None"
proof -
  have "policy fut \<noteq> launch_deferred" if returns: "poll_until_ready fut polls = Some y" for y
  proof (rule poll_until_ready.raw_induct
      [where P = "\<lambda>fut polls y. policy fut \<noteq> launch_deferred", OF _ returns])
    fix poll :: "future \<Rightarrow> nat \<Rightarrow> (future \<times> nat) option"
      and fut :: future and polls :: nat and y :: "future \<times> nat"
    assume IH: "\<And>fut polls y. poll fut polls = Some y \<Longrightarrow> policy fut \<noteq> launch_deferred"
    assume eq: "(case wait_for 100 fut of
                   (status, fut') \<Rightarrow>
                     if status \<noteq> ready then poll fut' (polls + 1)
                     else Some (fut', polls + 1)) = Some y"
    show "policy fut \<noteq> launch_deferred"
    proof
      assume d: "policy fut = launch_deferred"
      then have "poll fut (polls + 1) = Some y"
        using eq by (simp add: wait_for_def)
      then have "policy fut \<noteq> launch_deferred" by (rule IH)
      with d show False by simp
    qed
  qed
  then show "policy fut = launch_deferred \<Longrightarrow> poll_until_ready fut polls = None"
    by (cases "poll_until_ready fut polls") auto
qed

text \<open>
  On a task that runs on another thread the loop returns, with the future ready, after
  one call of \<^verbatim>\<open>wait_for\<close> for every 100 ms that remained (and at least one call).
\<close>

lemma poll_async_returns:
  "policy fut = launch_async \<Longrightarrow>
   poll_until_ready fut polls =
     Some (fut\<lparr>remaining := 0\<rparr>, polls + max 1 ((remaining fut + 99) div 100))"
proof (induction "remaining fut" arbitrary: fut polls rule: less_induct)
  case less
  show ?case
  proof (cases "remaining fut \<le> 100")
    case True
    then have "max 1 ((remaining fut + 99) div 100) = 1" by simp
    then show ?thesis
      using True less.prems
      by (subst poll_until_ready.simps) (simp add: wait_for_def)
  next
    case False
    let ?fut' = "fut\<lparr>remaining := remaining fut - 100\<rparr>"
    have step: "poll_until_ready fut polls = poll_until_ready ?fut' (polls + 1)"
      using False less.prems
      by (subst poll_until_ready.simps) (simp add: wait_for_def)
    have "poll_until_ready ?fut' (polls + 1) =
            Some (?fut'\<lparr>remaining := 0\<rparr>, polls + 1 + max 1 ((remaining ?fut' + 99) div 100))"
      using False less.prems by (intro less.hyps) simp_all
    moreover have "1 + max 1 ((remaining ?fut' + 99) div 100) = max 1 ((remaining fut + 99) div 100)"
      using False by simp
    ultimately show ?thesis
      using step by simp
  qed
qed

lemma main_item36_deferred:
  "main_item36 launch_deferred delay = Some (0, 0)"
  by (simp add: main_item36_def std_async_def wait_for_def)

lemma main_item36_async:
  "main_item36 launch_async delay = Some (0, (delay + f_duration + 99) div 100)"
  by (simp add: main_item36_def std_async_def wait_for_def f_duration_def poll_async_returns)

text \<open>
  C9. Whichever way the default launch policy runs \<open>f\<close>, \<^verbatim>\<open>main\<close> of item 36 returns 0.
  If the task is deferred, \<^verbatim>\<open>wait_for(0s)\<close> reports \<^verbatim>\<open>deferred\<close> and the loop is skipped:
  no call of \<^verbatim>\<open>wait_for(100ms)\<close> is made. Otherwise \<^verbatim>\<open>wait_for(0s)\<close> does not report
  \<^verbatim>\<open>deferred\<close>, and the loop polls until the future is ready and then ends. The
  guard is needed: the loop alone would never return on the deferred task.
\<close>

theorem main_item36_returns:
  "(\<exists>polls. main_item36 chosen delay = Some (0, polls)) \<and>
   fst (wait_for 0 (std_async launch_deferred delay)) = deferred \<and>
   main_item36 launch_deferred delay = Some (0, 0) \<and>
   fst (wait_for 0 (std_async launch_async delay)) \<noteq> deferred \<and>
   (\<exists>fut polls.
      poll_until_ready (snd (wait_for 0 (std_async launch_async delay))) 0 = Some (fut, polls) \<and>
      fst (wait_for 100 fut) = ready \<and>
      main_item36 launch_async delay = Some (0, polls)) \<and>
   poll_until_ready (std_async launch_deferred delay) 0 = None"
proof -
  have total: "\<exists>polls. main_item36 chosen delay = Some (0, polls)"
    by (cases chosen) (simp_all add: main_item36_deferred main_item36_async)
  have d0: "fst (wait_for 0 (std_async launch_deferred delay)) = deferred"
    by (simp add: wait_for_def std_async_def)
  have a0: "fst (wait_for 0 (std_async launch_async delay)) \<noteq> deferred"
    by (simp add: wait_for_def std_async_def)
  have fut1: "snd (wait_for 0 (std_async launch_async delay)) = std_async launch_async delay"
    by (simp add: wait_for_def std_async_def f_duration_def)
  have loop: "poll_until_ready (std_async launch_async delay) 0 =
      Some ((std_async launch_async delay)\<lparr>remaining := 0\<rparr>, (delay + f_duration + 99) div 100)"
    by (simp add: poll_async_returns std_async_def f_duration_def)
  have rdy: "fst (wait_for 100 ((std_async launch_async delay)\<lparr>remaining := 0\<rparr>)) = ready"
    by (simp add: wait_for_def std_async_def)
  have ex: "\<exists>fut polls.
      poll_until_ready (snd (wait_for 0 (std_async launch_async delay))) 0 = Some (fut, polls) \<and>
      fst (wait_for 100 fut) = ready \<and>
      main_item36 launch_async delay = Some (0, polls)"
    unfolding fut1 using loop rdy main_item36_async [of delay] by blast
  have never: "poll_until_ready (std_async launch_deferred delay) 0 = None"
    by (rule poll_deferred_never_returns) (simp add: std_async_def)
  from total d0 main_item36_deferred [of delay] a0 ex never show ?thesis
    by (intro conjI)
qed

section \<open>Properties of the main functions\<close>

lemma show_nat_not_Nil: "show_nat n \<noteq> []"
  by (subst show_nat.simps) simp

lemma show_nat_12: "show_nat 12 = ''12''"
  by (simp add: show_nat.simps)

lemma show_nat_3: "show_nat 3 = ''3''"
  by (simp add: show_nat.simps)












end
